theory Spec2Isabelle
  imports Complex_Main
begin

section \<open>The engine facade of infinity\_emb (engine.py)\<close>

text \<open>
  The theory embeds \<^verbatim>\<open>libs/infinity_emb/infinity_emb/engine.py\<close>: the class
  \<^verbatim>\<open>AsyncEmbeddingEngine\<close>, its constructors, its lifecycle methods and its request
  methods. The engine is a facade over two collaborators that live in other modules:
  \<^verbatim>\<open>select_model\<close> (the resolver) and \<^verbatim>\<open>BatchHandler\<close> (the dispatch runtime).
  Neither is part of engine.py, so both are parameters of the model; every call the
  engine makes into a \<^verbatim>\<open>BatchHandler\<close> is recorded in a trace, and what the call
  returns or raises is given by the parameter.

  The methods are coroutines. The model follows one logical thread of control: an
  \<^verbatim>\<open>await\<close> is a call that returns a value or raises.
\<close>

subsection \<open>Exceptions\<close>

text \<open>
  \<^verbatim>\<open>ValueError\<close> is what engine.py raises itself. \<^verbatim>\<open>AttributeError\<close> is what Python
  raises when \<^verbatim>\<open>self._batch_handler\<close> is read before it was ever assigned.
  \<^verbatim>\<open>TypeError\<close> is raised for an unexpected keyword argument. \<open>Raised\<close> stands for any
  other exception, of a collaborator or of the caller's own code.
\<close>

datatype error =
    ValueError string
  | AttributeError string
  | TypeError string
  | Raised string

text \<open>The two messages of engine.py (lines 63-67 and 177-181).\<close>

definition double_spawn_msg :: string where
  "double_spawn_msg =
     ''DoubleSpawn: already started `AsyncEmbeddingEngine`. '' @
     '' recommended use is via AsyncContextManager'' @
     '' `async with engine: ..`''"

definition not_started_msg :: string where
  "not_started_msg =
     ''didn't start `AsyncEmbeddingEngine` '' @
     '' recommended use is via AsyncContextManager'' @
     '' `async with engine: ..`''"

definition deprecation_msg :: string where
  "deprecation_msg =
     ''AsyncEmbeddingEngine() is deprecated since 0.0.25. '' @
     ''Use `AsyncEmbeddingEngine.from_args()` instead''"

subsection \<open>Data\<close>

text \<open>
  Modelled from the spec: the dataclass \<^verbatim>\<open>EngineArgs\<close> of \<^verbatim>\<open>infinity_emb.args\<close> is not
  part of engine.py. The record has the fields engine.py reads (the model name, the
  maximum batch size, the cache path, the tokenization flag); \<open>other_fields\<close> holds the
  pass-through fields, which the engine never inspects, as (name, value) pairs.
\<close>

record EngineArgs =
  model_name_or_path :: string
  batch_size :: int
  vector_disk_cache_path :: string
  lengths_via_tokenize :: bool
  other_fields :: "(string \<times> string) list"

text \<open>
  The keyword arguments \<^verbatim>\<open>**kwargs\<close> of the legacy constructor. \<open>None\<close> means that the
  keyword is absent, so that the dataclass default applies; \<open>kw_unexpected\<close> lists the
  keywords that are no field of \<^verbatim>\<open>EngineArgs\<close>.
\<close>

record kwargs =
  kw_model_name_or_path :: "string option"
  kw_batch_size :: "int option"
  kw_vector_disk_cache_path :: "string option"
  kw_lengths_via_tokenize :: "bool option"
  kw_other_fields :: "(string \<times> string) list option"
  kw_unexpected :: "string list"

text \<open>
  Modelled from the spec: \<^verbatim>\<open>ModelCapabilites\<close> and the model object returned by
  \<^verbatim>\<open>select_model\<close> are declared outside engine.py. The engine reads one attribute of
  the model, \<^verbatim>\<open>capabilities\<close>.
\<close>

datatype ModelCapabilites = Cap_embed | Cap_rerank | Cap_classify | Cap_image_embed

record ModelHandle =
  model_id :: string
  model_capabilities :: "ModelCapabilites set"

text \<open>The keyword arguments of \<^verbatim>\<open>BatchHandler(...)\<close>, engine.py lines 69-76.\<close>

record BatchHandlerArgs =
  max_batch_size :: int
  bh_model :: ModelHandle
  batch_delay :: real
  bh_vector_disk_cache_path :: string
  verbose :: bool
  bh_lengths_via_tokenize :: bool

text \<open>
  A call into the dispatch runtime. The first argument identifies the \<^verbatim>\<open>BatchHandler\<close>
  object: objects are numbered in the order of their construction. The last argument of
  \<open>Call_classify\<close> is the keyword \<^verbatim>\<open>raw_scores\<close>: \<open>None\<close> when the caller does not pass
  it, so that the default of \<^verbatim>\<open>BatchHandler.classify\<close> applies.
\<close>

datatype bh_call =
    Call_init nat BatchHandlerArgs
  | Call_spawn nat
  | Call_shutdown nat
  | Call_embed nat "string list"
  | Call_rerank nat string "string list" bool
  | Call_classify nat "string list" "bool option"
  | Call_overload_status nat
  | Call_is_overloaded nat

type_synonym embeddings = "real list list"
type_synonym class_scores = "(string \<times> real) list list"

text \<open>
  Modelled from the spec: the overload report of the dispatch runtime ("queue depth /
  admission-control state") is declared outside engine.py; the engine returns it as it
  receives it.
\<close>

record OverloadStatus =
  queue_fraction :: real
  queue_absolute :: int
  results_absolute :: int

text \<open>
  The collaborators. Each \<open>bh_\<close> function gives the outcome of one call into the dispatch
  runtime, as a function of the calls made before it: \<open>None\<close> or \<open>Inr\<close> for a normal
  return, \<open>Some err\<close> or \<open>Inl err\<close> for a raised exception. \<open>defaults\<close> are the default
  field values of the \<^verbatim>\<open>EngineArgs\<close> dataclass.
\<close>

record collaborators =
  defaults :: EngineArgs
  select_model :: "EngineArgs \<Rightarrow> error + (ModelHandle \<times> real \<times> real)"
  bh_init :: "bh_call list \<Rightarrow> nat \<Rightarrow> BatchHandlerArgs \<Rightarrow> error option"
  bh_spawn :: "bh_call list \<Rightarrow> nat \<Rightarrow> error option"
  bh_shutdown :: "bh_call list \<Rightarrow> nat \<Rightarrow> error option"
  bh_embed :: "bh_call list \<Rightarrow> nat \<Rightarrow> string list \<Rightarrow> error + (embeddings \<times> int)"
  bh_rerank :: "bh_call list \<Rightarrow> nat \<Rightarrow> string \<Rightarrow> string list \<Rightarrow> bool
                  \<Rightarrow> error + (real list \<times> int)"
  bh_classify :: "bh_call list \<Rightarrow> nat \<Rightarrow> string list \<Rightarrow> bool option
                  \<Rightarrow> error + (class_scores \<times> int)"
  bh_overload_status :: "bh_call list \<Rightarrow> nat \<Rightarrow> error + OverloadStatus"
  bh_is_overloaded :: "bh_call list \<Rightarrow> nat \<Rightarrow> error + bool"

text \<open>
  What lies outside the engine object: the trace of calls into the dispatch runtime
  (oldest first), the warnings written to the logger, and the logger's level.
\<close>

record world =
  calls :: "bh_call list"
  warnings :: "string list"
  logger_level :: int

text \<open>
  The attributes of an \<^verbatim>\<open>AsyncEmbeddingEngine\<close>. \<open>batch_handler\<close> is \<open>None\<close> as long as
  \<^verbatim>\<open>self._batch_handler\<close> has not been assigned.
\<close>

record engine =
  engine_args :: EngineArgs
  running :: bool
  model :: ModelHandle
  min_inference_t :: real
  max_inference_t :: real
  batch_handler :: "nat option"

subsection \<open>Construction\<close>

text \<open>
  Modelled from the spec: \<^verbatim>\<open>EngineArgs(**kwargs)\<close>, the constructor of the dataclass,
  and \<^verbatim>\<open>asdict\<close> on it. A keyword that is no field raises \<^verbatim>\<open>TypeError\<close>; a missing
  keyword takes the default.
\<close>

definition EngineArgs_init :: "EngineArgs \<Rightarrow> kwargs \<Rightarrow> error + EngineArgs" where
  "EngineArgs_init d kw =
     (case kw_unexpected kw of
        k # _ \<Rightarrow> Inl (TypeError k)
      | [] \<Rightarrow> Inr \<lparr>
          model_name_or_path =
            (case kw_model_name_or_path kw of None \<Rightarrow> model_name_or_path d | Some v \<Rightarrow> v),
          batch_size =
            (case kw_batch_size kw of None \<Rightarrow> batch_size d | Some v \<Rightarrow> v),
          vector_disk_cache_path =
            (case kw_vector_disk_cache_path kw of
               None \<Rightarrow> vector_disk_cache_path d | Some v \<Rightarrow> v),
          lengths_via_tokenize =
            (case kw_lengths_via_tokenize kw of
               None \<Rightarrow> lengths_via_tokenize d | Some v \<Rightarrow> v),
          other_fields =
            (case kw_other_fields kw of None \<Rightarrow> other_fields d | Some v \<Rightarrow> v) \<rparr>)"

text \<open>
  \<^verbatim>\<open>asdict(engine_args)\<close>, split the way Python binds \<^verbatim>\<open>cls(**asdict(engine_args))\<close>:
  the entry \<^verbatim>\<open>model_name_or_path\<close> goes to the parameter of that name, all other entries
  go to \<^verbatim>\<open>**kwargs\<close>.
\<close>

definition asdict_rest :: "EngineArgs \<Rightarrow> kwargs" where
  "asdict_rest a = \<lparr>
     kw_model_name_or_path = None,
     kw_batch_size = Some (batch_size a),
     kw_vector_disk_cache_path = Some (vector_disk_cache_path a),
     kw_lengths_via_tokenize = Some (lengths_via_tokenize a),
     kw_other_fields = Some (other_fields a),
     kw_unexpected = [] \<rparr>"

text \<open>\<^verbatim>\<open>__init__\<close>, lines 20-42. It returns the new object, or the exception.\<close>

definition AsyncEmbeddingEngine_init ::
  "collaborators \<Rightarrow> string option \<Rightarrow> bool \<Rightarrow> kwargs \<Rightarrow> world \<Rightarrow> (error + engine) \<times> world" where
  "AsyncEmbeddingEngine_init c name show_deprecation_warning kw w =
     (let w1 = (if show_deprecation_warning
                then w\<lparr>warnings := warnings w @ [deprecation_msg]\<rparr> else w);
          kw1 = (case name of
                   Some n \<Rightarrow> kw\<lparr>kw_model_name_or_path := Some n\<rparr>
                 | None \<Rightarrow> kw)
      in case EngineArgs_init (defaults c) kw1 of
           Inl err \<Rightarrow> (Inl err, w1)
         | Inr args \<Rightarrow>
             (case select_model c args of
                Inl err \<Rightarrow> (Inl err, w1)
              | Inr (m, tmin, tmax) \<Rightarrow>
                  (Inr \<lparr> engine_args = args, running = False, model = m,
                         min_inference_t = tmin, max_inference_t = tmax,
                         batch_handler = None \<rparr>, w1)))"

text \<open>\<^verbatim>\<open>from_args\<close>, lines 44-51.\<close>

definition from_args :: "collaborators \<Rightarrow> EngineArgs \<Rightarrow> world \<Rightarrow> (error + engine) \<times> world" where
  "from_args c a w =
     AsyncEmbeddingEngine_init c (Some (model_name_or_path a)) False (asdict_rest a) w"

subsection \<open>Lifecycle\<close>

fun is_init :: "bh_call \<Rightarrow> bool" where
  "is_init (Call_init _ _) = True"
| "is_init _ = False"

text \<open>The number of the next \<^verbatim>\<open>BatchHandler\<close> object.\<close>

definition next_handle :: "world \<Rightarrow> nat" where
  "next_handle w = length (filter is_init (calls w))"

text \<open>\<^verbatim>\<open>_check_running\<close>, lines 175-181.\<close>

definition check_running :: "engine \<Rightarrow> error + unit" where
  "check_running e =
     (if \<not> running e then Inl (ValueError not_started_msg) else Inr ())"

text \<open>\<^verbatim>\<open>astart\<close>, lines 60-77.\<close>

definition astart :: "collaborators \<Rightarrow> engine \<Rightarrow> world \<Rightarrow> (error + unit) \<times> engine \<times> world" where
  "astart c e w =
     (if running e then (Inl (ValueError double_spawn_msg), e, w)
      else
        (let e1 = e\<lparr>running := True\<rparr>;
             args = \<lparr> max_batch_size = batch_size (engine_args e1),
                      bh_model = model e1,
                      batch_delay = min_inference_t e1 / 2,
                      bh_vector_disk_cache_path = vector_disk_cache_path (engine_args e1),
                      verbose = (logger_level w \<le> 10),
                      bh_lengths_via_tokenize = lengths_via_tokenize (engine_args e1) \<rparr>;
             h = next_handle w;
             w1 = w\<lparr>calls := calls w @ [Call_init h args]\<rparr>
         in (case bh_init c (calls w) h args of
               Some err \<Rightarrow> (Inl err, e1, w1)
             | None \<Rightarrow>
                 (let e2 = e1\<lparr>batch_handler := Some h\<rparr>;
                      w2 = w1\<lparr>calls := calls w1 @ [Call_spawn h]\<rparr>
                  in (case bh_spawn c (calls w1) h of
                        Some err \<Rightarrow> (Inl err, e2, w2)
                      | None \<Rightarrow> (Inr (), e2, w2))))))"

text \<open>The arguments that \<open>astart\<close> passes to the constructor \<^verbatim>\<open>BatchHandler(...)\<close>.\<close>

definition start_args :: "engine \<Rightarrow> world \<Rightarrow> BatchHandlerArgs" where
  "start_args e w =
     \<lparr> max_batch_size = batch_size (engine_args e), bh_model = model e,
       batch_delay = min_inference_t e / 2,
       bh_vector_disk_cache_path = vector_disk_cache_path (engine_args e),
       verbose = (logger_level w \<le> 10),
       bh_lengths_via_tokenize = lengths_via_tokenize (engine_args e) \<rparr>"

text \<open>\<^verbatim>\<open>astop\<close>, lines 79-83.\<close>

definition astop :: "collaborators \<Rightarrow> engine \<Rightarrow> world \<Rightarrow> (error + unit) \<times> engine \<times> world" where
  "astop c e w =
     (case check_running e of
        Inl err \<Rightarrow> (Inl err, e, w)
      | Inr _ \<Rightarrow>
          (let e1 = e\<lparr>running := False\<rparr>
           in (case batch_handler e1 of
                 None \<Rightarrow> (Inl (AttributeError ''_batch_handler''), e1, w)
               | Some h \<Rightarrow>
                   (let w1 = w\<lparr>calls := calls w @ [Call_shutdown h]\<rparr>
                    in (case bh_shutdown c (calls w) h of
                          Some err \<Rightarrow> (Inl err, e1, w1)
                        | None \<Rightarrow> (Inr (), e1, w1))))))"

text \<open>\<^verbatim>\<open>__aenter__\<close> and \<^verbatim>\<open>__aexit__\<close>, lines 85-89.\<close>

definition aenter :: "collaborators \<Rightarrow> engine \<Rightarrow> world \<Rightarrow> (error + unit) \<times> engine \<times> world" where
  "aenter c e w = astart c e w"

definition aexit :: "collaborators \<Rightarrow> engine \<Rightarrow> world \<Rightarrow> (error + unit) \<times> engine \<times> world" where
  "aexit c e w = astop c e w"

subsection \<open>Queries and requests\<close>

text \<open>\<^verbatim>\<open>overload_status\<close> and \<^verbatim>\<open>is_overloaded\<close>, lines 91-97.\<close>

definition overload_status ::
  "collaborators \<Rightarrow> engine \<Rightarrow> world \<Rightarrow> (error + OverloadStatus) \<times> world" where
  "overload_status c e w =
     (case check_running e of
        Inl err \<Rightarrow> (Inl err, w)
      | Inr _ \<Rightarrow>
          (case batch_handler e of
             None \<Rightarrow> (Inl (AttributeError ''_batch_handler''), w)
           | Some h \<Rightarrow>
               (bh_overload_status c (calls w) h,
                w\<lparr>calls := calls w @ [Call_overload_status h]\<rparr>)))"

definition is_overloaded ::
  "collaborators \<Rightarrow> engine \<Rightarrow> world \<Rightarrow> (error + bool) \<times> world" where
  "is_overloaded c e w =
     (case check_running e of
        Inl err \<Rightarrow> (Inl err, w)
      | Inr _ \<Rightarrow>
          (case batch_handler e of
             None \<Rightarrow> (Inl (AttributeError ''_batch_handler''), w)
           | Some h \<Rightarrow>
               (bh_is_overloaded c (calls w) h,
                w\<lparr>calls := calls w @ [Call_is_overloaded h]\<rparr>)))"

text \<open>The property \<^verbatim>\<open>capabilities\<close>, lines 99-101.\<close>

definition capabilities :: "engine \<Rightarrow> error + ModelCapabilites set" where
  "capabilities e = Inr (model_capabilities (model e))"

text \<open>\<^verbatim>\<open>embed\<close>, lines 103-124.\<close>

definition embed ::
  "collaborators \<Rightarrow> engine \<Rightarrow> world \<Rightarrow> string list \<Rightarrow> (error + (embeddings \<times> int)) \<times> world" where
  "embed c e w sentences =
     (case check_running e of
        Inl err \<Rightarrow> (Inl err, w)
      | Inr _ \<Rightarrow>
          (case batch_handler e of
             None \<Rightarrow> (Inl (AttributeError ''_batch_handler''), w)
           | Some h \<Rightarrow>
               (bh_embed c (calls w) h sentences,
                w\<lparr>calls := calls w @ [Call_embed h sentences]\<rparr>)))"

text \<open>\<^verbatim>\<open>rerank\<close>, lines 126-150.\<close>

definition rerank ::
  "collaborators \<Rightarrow> engine \<Rightarrow> world \<Rightarrow> string \<Rightarrow> string list \<Rightarrow> bool
     \<Rightarrow> (error + (real list \<times> int)) \<times> world" where
  "rerank c e w query docs raw_scores =
     (case check_running e of
        Inl err \<Rightarrow> (Inl err, w)
      | Inr _ \<Rightarrow>
          (case batch_handler e of
             None \<Rightarrow> (Inl (AttributeError ''_batch_handler''), w)
           | Some h \<Rightarrow>
               (bh_rerank c (calls w) h query docs raw_scores,
                w\<lparr>calls := calls w @ [Call_rerank h query docs raw_scores]\<rparr>)))"

text \<open>
  \<^verbatim>\<open>classify\<close>, lines 152-173. Line 171 calls
  \<^verbatim>\<open>self._batch_handler.classify(sentences=sentences)\<close>: the keyword \<^verbatim>\<open>raw_scores\<close> is
  not passed on.
\<close>

definition classify ::
  "collaborators \<Rightarrow> engine \<Rightarrow> world \<Rightarrow> string list \<Rightarrow> bool
     \<Rightarrow> (error + (class_scores \<times> int)) \<times> world" where
  "classify c e w sentences raw_scores =
     (case check_running e of
        Inl err \<Rightarrow> (Inl err, w)
      | Inr _ \<Rightarrow>
          (case batch_handler e of
             None \<Rightarrow> (Inl (AttributeError ''_batch_handler''), w)
           | Some h \<Rightarrow>
               (bh_classify c (calls w) h sentences None,
                w\<lparr>calls := calls w @ [Call_classify h sentences None]\<rparr>)))"

subsection \<open>Callers\<close>

text \<open>
  A caller's block of code over one engine: a sequence of calls on the engine, run in
  order. The block can also raise an exception of its own (\<open>Do_raise\<close>) or return
  early (\<open>Do_return\<close>). The results of the calls are dropped; a call that raises ends
  the block with that exception.
\<close>

datatype op =
    Do_embed "string list"
  | Do_rerank string "string list" bool
  | Do_classify "string list" bool
  | Do_overload_status
  | Do_is_overloaded
  | Do_capabilities
  | Do_astart
  | Do_astop
  | Do_raise error
  | Do_return

datatype outcome = Completed | Returned | Failed error

fun run_op :: "collaborators \<Rightarrow> op \<Rightarrow> engine \<Rightarrow> world \<Rightarrow> outcome \<times> engine \<times> world" where
  "run_op c (Do_embed ss) e w =
     (case embed c e w ss of
        (Inl err, w1) \<Rightarrow> (Failed err, e, w1) | (Inr _, w1) \<Rightarrow> (Completed, e, w1))"
| "run_op c (Do_rerank q docs raw) e w =
     (case rerank c e w q docs raw of
        (Inl err, w1) \<Rightarrow> (Failed err, e, w1) | (Inr _, w1) \<Rightarrow> (Completed, e, w1))"
| "run_op c (Do_classify ss raw) e w =
     (case classify c e w ss raw of
        (Inl err, w1) \<Rightarrow> (Failed err, e, w1) | (Inr _, w1) \<Rightarrow> (Completed, e, w1))"
| "run_op c Do_overload_status e w =
     (case overload_status c e w of
        (Inl err, w1) \<Rightarrow> (Failed err, e, w1) | (Inr _, w1) \<Rightarrow> (Completed, e, w1))"
| "run_op c Do_is_overloaded e w =
     (case is_overloaded c e w of
        (Inl err, w1) \<Rightarrow> (Failed err, e, w1) | (Inr _, w1) \<Rightarrow> (Completed, e, w1))"
| "run_op c Do_capabilities e w =
     (case capabilities e of
        Inl err \<Rightarrow> (Failed err, e, w) | Inr _ \<Rightarrow> (Completed, e, w))"
| "run_op c Do_astart e w =
     (case astart c e w of
        (Inl err, e1, w1) \<Rightarrow> (Failed err, e1, w1) | (Inr _, e1, w1) \<Rightarrow> (Completed, e1, w1))"
| "run_op c Do_astop e w =
     (case astop c e w of
        (Inl err, e1, w1) \<Rightarrow> (Failed err, e1, w1) | (Inr _, e1, w1) \<Rightarrow> (Completed, e1, w1))"
| "run_op c (Do_raise err) e w = (Failed err, e, w)"
| "run_op c Do_return e w = (Returned, e, w)"

fun run_body :: "collaborators \<Rightarrow> op list \<Rightarrow> engine \<Rightarrow> world \<Rightarrow> outcome \<times> engine \<times> world" where
  "run_body c [] e w = (Completed, e, w)"
| "run_body c (x # xs) e w =
     (case run_op c x e w of
        (Completed, e1, w1) \<Rightarrow> run_body c xs e1 w1
      | (Returned, e1, w1) \<Rightarrow> (Returned, e1, w1)
      | (Failed err, e1, w1) \<Rightarrow> (Failed err, e1, w1))"

text \<open>
  \<^verbatim>\<open>async with engine: body\<close>, as Python runs it: \<^verbatim>\<open>__aenter__\<close> is awaited; if it
  raises, the body is not run and \<^verbatim>\<open>__aexit__\<close> is not called. Otherwise the body is
  run, and however it ends, \<^verbatim>\<open>__aexit__\<close> is awaited. \<^verbatim>\<open>__aexit__\<close> of the engine
  returns \<^verbatim>\<open>None\<close>, so an exception of the body is raised again after it; an exception
  raised by \<^verbatim>\<open>__aexit__\<close> itself takes its place. The body is any code over the
  engine and the world; \<open>run_body c ops\<close> is one.
\<close>

definition async_with ::
  "collaborators \<Rightarrow> (engine \<Rightarrow> world \<Rightarrow> outcome \<times> engine \<times> world) \<Rightarrow> engine \<Rightarrow> world
     \<Rightarrow> outcome \<times> engine \<times> world" where
  "async_with c body e w =
     (case aenter c e w of
        (Inl err, e1, w1) \<Rightarrow> (Failed err, e1, w1)
      | (Inr _, e1, w1) \<Rightarrow>
          (case body e1 w1 of
             (out, e2, w2) \<Rightarrow>
               (case aexit c e2 w2 of
                  (Inl err, e3, w3) \<Rightarrow> (Failed err, e3, w3)
                | (Inr _, e3, w3) \<Rightarrow> (out, e3, w3))))"

fun is_lifecycle :: "op \<Rightarrow> bool" where
  "is_lifecycle Do_astart = True"
| "is_lifecycle Do_astop = True"
| "is_lifecycle _ = False"

fun is_shutdown :: "bh_call \<Rightarrow> bool" where
  "is_shutdown (Call_shutdown _) = True"
| "is_shutdown _ = False"

subsection \<open>Collaborators for the examples\<close>

text \<open>
  A resolver and a dispatch runtime on which the definitions can be run. The runtime
  answers every call; its scores depend on the \<^verbatim>\<open>raw_scores\<close> flag it receives.
\<close>

definition demo_args :: EngineArgs where
  "demo_args = \<lparr> model_name_or_path = ''model-a'', batch_size = 32,
                 vector_disk_cache_path = ''/tmp/cache'', lengths_via_tokenize = True,
                 other_fields = [(''device'', ''cpu'')] \<rparr>"

definition demo_model :: ModelHandle where
  "demo_model = \<lparr> model_id = ''model-a'', model_capabilities = {Cap_embed, Cap_classify} \<rparr>"

definition demo_collab :: collaborators where
  "demo_collab = \<lparr>
     defaults = \<lparr> model_name_or_path = ''default-model'', batch_size = 64,
                  vector_disk_cache_path = [], lengths_via_tokenize = False,
                  other_fields = [] \<rparr>,
     select_model = (\<lambda>a. Inr (demo_model, 3 / 100, 1 / 10)),
     bh_init = (\<lambda>tr h args. None),
     bh_spawn = (\<lambda>tr h. None),
     bh_shutdown = (\<lambda>tr h. None),
     bh_embed = (\<lambda>tr h ss. Inr (map (\<lambda>s. [0, 1]) ss, int (length ss))),
     bh_rerank = (\<lambda>tr h q docs raw.
        Inr (map (\<lambda>d. if raw then 4 else 1 / 2) docs, int (length docs))),
     bh_classify = (\<lambda>tr h ss raw.
        Inr (map (\<lambda>s. [(''label'', if raw = Some False then 1 / 2 else 4)]) ss,
             int (length ss))),
     bh_overload_status = (\<lambda>tr h.
        Inr \<lparr> queue_fraction = 0, queue_absolute = 0, results_absolute = 0 \<rparr>),
     bh_is_overloaded = (\<lambda>tr h. Inr False) \<rparr>"

text \<open>The same, with a \<^verbatim>\<open>BatchHandler\<close> constructor that raises, or a spawn that raises.\<close>

definition init_fails_collab :: collaborators where
  "init_fails_collab = demo_collab\<lparr> bh_init := (\<lambda>tr h args. Some (Raised ''OSError'')) \<rparr>"

definition spawn_fails_collab :: collaborators where
  "spawn_fails_collab = demo_collab\<lparr> bh_spawn := (\<lambda>tr h. Some (Raised ''RuntimeError'')) \<rparr>"

definition demo_world :: world where
  "demo_world = \<lparr> calls = [], warnings = [], logger_level = 20 \<rparr>"

text \<open>The engine that \<open>from_args\<close> builds from \<open>demo_args\<close>, before and after \<open>astart\<close>.\<close>

definition demo_engine :: engine where
  "demo_engine = \<lparr> engine_args = demo_args, running = False, model = demo_model,
                   min_inference_t = 3 / 100, max_inference_t = 1 / 10,
                   batch_handler = None \<rparr>"

definition demo_handler_args :: BatchHandlerArgs where
  "demo_handler_args = \<lparr> max_batch_size = 32, bh_model = demo_model,
                         batch_delay = 3 / 200,
                         bh_vector_disk_cache_path = ''/tmp/cache'', verbose = False,
                         bh_lengths_via_tokenize = True \<rparr>"

definition demo_running_engine :: engine where
  "demo_running_engine = demo_engine\<lparr> running := True, batch_handler := Some 0 \<rparr>"

definition demo_running_world :: world where
  "demo_running_world = demo_world\<lparr> calls := [Call_init 0 demo_handler_args, Call_spawn 0] \<rparr>"

definition demo_stopped_engine :: engine where
  "demo_stopped_engine = demo_engine\<lparr> running := False, batch_handler := Some 0 \<rparr>"

definition demo_stopped_world :: world where
  "demo_stopped_world =
     demo_world\<lparr> calls := [Call_init 0 demo_handler_args, Call_spawn 0, Call_shutdown 0] \<rparr>"

text \<open>The example engine after a start whose \<^verbatim>\<open>BatchHandler\<close> constructor raised.\<close>

definition demo_half_started_engine :: engine where
  "demo_half_started_engine = demo_engine\<lparr> running := True \<rparr>"

definition demo_half_started_world :: world where
  "demo_half_started_world = demo_world\<lparr> calls := [Call_init 0 demo_handler_args] \<rparr>"

text \<open>A runtime whose \<^verbatim>\<open>embed\<close> raises, and a block that calls it.\<close>

definition embed_fails_collab :: collaborators where
  "embed_fails_collab =
     demo_collab\<lparr> bh_embed := (\<lambda>tr h ss. Inl (Raised ''ModelNotDeployedError'')) \<rparr>"

definition demo_block :: "op list" where
  "demo_block = [Do_is_overloaded, Do_embed [''a''], Do_embed [''b'']]"

section \<open>Properties\<close>

subsection \<open>Auxiliary facts\<close>

lemma world_calls_append_neq: "w\<lparr>calls := calls w @ [x]\<rparr> \<noteq> w"
proof
  assume "w\<lparr>calls := calls w @ [x]\<rparr> = w"
  then have "calls (w\<lparr>calls := calls w @ [x]\<rparr>) = calls w" by simp
  then show False by simp
qed

lemma astart_running:
  "running e \<Longrightarrow> astart c e w = (Inl (ValueError double_spawn_msg), e, w)"
  by (simp add: astart_def)

lemma astart_result_running: "running (fst (snd (astart c e w)))"
  by (simp add: astart_def Let_def split: option.splits)

lemma astart_fixed:
  "astart c e w = (r, e1, w1) \<Longrightarrow>
     model e1 = model e \<and> engine_args e1 = engine_args e
     \<and> min_inference_t e1 = min_inference_t e \<and> max_inference_t e1 = max_inference_t e"
  by (auto simp: astart_def Let_def split: if_splits option.splits)

lemma astop_fixed:
  "astop c e w = (r, e1, w1) \<Longrightarrow>
     model e1 = model e \<and> engine_args e1 = engine_args e
     \<and> min_inference_t e1 = min_inference_t e \<and> max_inference_t e1 = max_inference_t e"
  by (auto simp: astop_def check_running_def Let_def split: if_splits option.splits)

text \<open>No call on the engine replaces the model that the constructor resolved.\<close>

lemma run_op_model: "run_op c x e w = (out, e1, w1) \<Longrightarrow> model e1 = model e"
proof (cases x)
  case Do_astart
  then show "run_op c x e w = (out, e1, w1) \<Longrightarrow> model e1 = model e"
    by (auto split: prod.splits sum.splits dest: astart_fixed)
next
  case Do_astop
  then show "run_op c x e w = (out, e1, w1) \<Longrightarrow> model e1 = model e"
    by (auto split: prod.splits sum.splits dest: astop_fixed)
qed (auto split: prod.splits sum.splits)

lemma run_body_model: "run_body c body e w = (out, e1, w1) \<Longrightarrow> model e1 = model e"
proof (induction body arbitrary: e w)
  case Nil
  then show ?case by simp
next
  case (Cons x xs)
  obtain o1 e' w' where step: "run_op c x e w = (o1, e', w')"
    by (cases "run_op c x e w") auto
  then have m: "model e' = model e" by (rule run_op_model)
  show ?case
  proof (cases o1)
    case Completed
    with Cons.prems step have "run_body c xs e' w' = (out, e1, w1)" by simp
    then have "model e1 = model e'" by (rule Cons.IH)
    with m show ?thesis by simp
  next
    case Returned
    with Cons.prems step m show ?thesis by simp
  next
    case (Failed err)
    with Cons.prems step m show ?thesis by simp
  qed
qed

text \<open>Only \<open>astop\<close> clears the flag \<open>running\<close>.\<close>

lemma run_op_keeps_running:
  "running e \<Longrightarrow> x \<noteq> Do_astop \<Longrightarrow> run_op c x e w = (out, e1, w1) \<Longrightarrow> running e1"
  by (cases x) (auto simp: astart_running split: prod.splits sum.splits)

lemma run_body_keeps_running:
  "running e \<Longrightarrow> Do_astop \<notin> set body \<Longrightarrow> run_body c body e w = (out, e1, w1) \<Longrightarrow> running e1"
proof (induction body arbitrary: e w)
  case Nil
  then show ?case by simp
next
  case (Cons x xs)
  obtain o1 e' w' where step: "run_op c x e w = (o1, e', w')"
    by (cases "run_op c x e w") auto
  from Cons.prems have "x \<noteq> Do_astop" by auto
  with Cons.prems(1) step have r: "running e'" by (blast intro: run_op_keeps_running)
  show ?case
  proof (cases o1)
    case Completed
    with Cons.prems step have "run_body c xs e' w' = (out, e1, w1)" by simp
    moreover from Cons.prems have "Do_astop \<notin> set xs" by simp
    ultimately show ?thesis using r Cons.IH by blast
  next
    case Returned
    with Cons.prems step r show ?thesis by simp
  next
    case (Failed err)
    with Cons.prems step r show ?thesis by simp
  qed
qed

text \<open>
  A block without lifecycle calls leaves the engine object as it is and adds no
  \<^verbatim>\<open>shutdown\<close> to the trace.
\<close>

lemma run_op_requests:
  "\<not> is_lifecycle x \<Longrightarrow> run_op c x e w = (out, e1, w1) \<Longrightarrow>
     e1 = e \<and> (\<exists>ys. calls w1 = calls w @ ys \<and> filter is_shutdown ys = [])"
  by (cases x)
    (auto simp: embed_def rerank_def classify_def overload_status_def is_overloaded_def
       capabilities_def split: prod.splits sum.splits option.splits)

lemma run_body_requests:
  "\<forall>x\<in>set body. \<not> is_lifecycle x \<Longrightarrow> run_body c body e w = (out, e1, w1) \<Longrightarrow>
     e1 = e \<and> (\<exists>ys. calls w1 = calls w @ ys \<and> filter is_shutdown ys = [])"
proof (induction body arbitrary: w)
  case Nil
  then show ?case by simp
next
  case (Cons x xs)
  obtain o1 e' w' where step: "run_op c x e w = (o1, e', w')"
    by (cases "run_op c x e w") auto
  from Cons.prems have nl: "\<not> is_lifecycle x" by simp
  from run_op_requests [OF nl step]
  obtain ys where e': "e' = e" and ys: "calls w' = calls w @ ys" "filter is_shutdown ys = []"
    by blast
  show ?case
  proof (cases o1)
    case Completed
    with Cons.prems step e' have rest: "run_body c xs e w' = (out, e1, w1)" by simp
    from Cons.prems have "\<forall>x\<in>set xs. \<not> is_lifecycle x" by simp
    from Cons.IH [OF this rest]
    obtain zs where "e1 = e" "calls w1 = calls w' @ zs" "filter is_shutdown zs = []" by blast
    with ys have "e1 = e \<and> calls w1 = calls w @ (ys @ zs) \<and> filter is_shutdown (ys @ zs) = []"
      by simp
    then show ?thesis by blast
  next
    case Returned
    with Cons.prems step e' ys show ?thesis by auto
  next
    case (Failed err)
    with Cons.prems step e' ys show ?thesis by auto
  qed
qed

text \<open>The dataclass built from \<^verbatim>\<open>asdict\<close> of a configuration is that configuration.\<close>

lemma EngineArgs_roundtrip:
  "EngineArgs_init d ((asdict_rest a)\<lparr>kw_model_name_or_path := Some (model_name_or_path a)\<rparr>)
     = Inr a"
  by (simp add: EngineArgs_init_def asdict_rest_def)

lemma from_args_model:
  "from_args c a w = (Inr e, w0) \<Longrightarrow>
     select_model c a = Inr (model e, min_inference_t e, max_inference_t e)"
  by (auto simp: from_args_def AsyncEmbeddingEngine_init_def EngineArgs_roundtrip Let_def
      split: sum.splits prod.splits)

text \<open>The example engine: constructed, started, stopped.\<close>

lemma demo_from_args:
  "from_args demo_collab demo_args demo_world = (Inr demo_engine, demo_world)"
  by (simp add: from_args_def AsyncEmbeddingEngine_init_def EngineArgs_init_def asdict_rest_def
      demo_collab_def demo_args_def demo_engine_def)

lemma demo_astart:
  "astart demo_collab demo_engine demo_world = (Inr (), demo_running_engine, demo_running_world)"
  by (simp add: astart_def demo_collab_def demo_engine_def demo_world_def
      demo_running_engine_def demo_running_world_def demo_handler_args_def demo_args_def
      next_handle_def)

lemma demo_astop:
  "astop demo_collab demo_running_engine demo_running_world
     = (Inr (), demo_stopped_engine, demo_stopped_world)"
  by (simp add: astop_def check_running_def demo_collab_def demo_engine_def demo_world_def
      demo_running_engine_def demo_running_world_def demo_stopped_engine_def
      demo_stopped_world_def)

lemma astart_not_running:
  "\<not> running e \<Longrightarrow>
   astart c e w =
     (case bh_init c (calls w) (next_handle w) (start_args e w) of
        Some err \<Rightarrow>
          (Inl err, e\<lparr>running := True\<rparr>,
           w\<lparr>calls := calls w @ [Call_init (next_handle w) (start_args e w)]\<rparr>)
      | None \<Rightarrow>
          (case bh_spawn c (calls w @ [Call_init (next_handle w) (start_args e w)])
                  (next_handle w) of
             Some err \<Rightarrow>
               (Inl err, e\<lparr>running := True, batch_handler := Some (next_handle w)\<rparr>,
                w\<lparr>calls := calls w @ [Call_init (next_handle w) (start_args e w),
                                        Call_spawn (next_handle w)]\<rparr>)
           | None \<Rightarrow>
               (Inr (), e\<lparr>running := True, batch_handler := Some (next_handle w)\<rparr>,
                w\<lparr>calls := calls w @ [Call_init (next_handle w) (start_args e w),
                                        Call_spawn (next_handle w)]\<rparr>)))"
  by (simp add: astart_def start_args_def Let_def split: option.splits)

lemma astop_success:
  "astop c e w = (Inr (), e1, w1) \<Longrightarrow>
     running e \<and> e1 = e\<lparr>running := False\<rparr>
     \<and> (\<exists>h. batch_handler e = Some h \<and> w1 = w\<lparr>calls := calls w @ [Call_shutdown h]\<rparr>)"
  by (auto simp: astop_def check_running_def Let_def split: if_splits option.splits)

lemma astart_success:
  "astart c e w = (Inr (), e1, w1) \<Longrightarrow>
     calls w1 = calls w @
       [Call_init (next_handle w) (start_args e w), Call_spawn (next_handle w)]
     \<and> batch_handler e1 = Some (next_handle w) \<and> running e1"
  by (auto simp: astart_def start_args_def Let_def split: if_splits option.splits)

lemma demo_spawn_fails:
  "astart spawn_fails_collab demo_engine demo_world
     = (Inl (Raised ''RuntimeError''), demo_running_engine, demo_running_world)"
  by (simp add: astart_def spawn_fails_collab_def demo_collab_def demo_engine_def demo_world_def
      demo_running_engine_def demo_running_world_def demo_handler_args_def demo_args_def
      next_handle_def)

subsection \<open>Requests need a running engine\<close>

text \<open>
  Claim C3. On an engine that is not running, \<open>embed\<close>, \<open>rerank\<close>, \<open>classify\<close>,
  \<open>overload_status\<close> and \<open>is_overloaded\<close> raise the \<^verbatim>\<open>ValueError\<close> of
  \<^verbatim>\<open>_check_running\<close> and leave the world, with its trace of runtime calls, as it was;
  and this is the outcome only when the engine is not running.
\<close>

theorem not_running_rejects_requests:
  "(embed c e w ss = (Inl (ValueError not_started_msg), w)) = (\<not> running e)
   \<and> (rerank c e w q docs raw = (Inl (ValueError not_started_msg), w)) = (\<not> running e)
   \<and> (classify c e w ss raw = (Inl (ValueError not_started_msg), w)) = (\<not> running e)
   \<and> (overload_status c e w = (Inl (ValueError not_started_msg), w)) = (\<not> running e)
   \<and> (is_overloaded c e w = (Inl (ValueError not_started_msg), w)) = (\<not> running e)"
  by (simp add: embed_def rerank_def classify_def overload_status_def is_overloaded_def
      check_running_def world_calls_append_neq split: option.splits)

theorem not_running_rejects_requests_witness:
  "\<not> running demo_engine
   \<and> embed demo_collab demo_engine demo_world [''a'']
       = (Inl (ValueError not_started_msg), demo_world)
   \<and> is_overloaded demo_collab demo_stopped_engine demo_stopped_world
       = (Inl (ValueError not_started_msg), demo_stopped_world)
   \<and> running demo_running_engine
   \<and> embed demo_collab demo_running_engine demo_running_world [''a'']
       \<noteq> (Inl (ValueError not_started_msg), demo_running_world)"
  using not_running_rejects_requests [of demo_collab demo_engine demo_world "[''a'']"]
    not_running_rejects_requests [of demo_collab demo_stopped_engine demo_stopped_world]
    not_running_rejects_requests [of demo_collab demo_running_engine demo_running_world "[''a'']"]
  by (simp add: demo_engine_def demo_stopped_engine_def demo_running_engine_def)

subsection \<open>Misuse of the lifecycle\<close>

text \<open>
  Claim C4. On a running engine, after any block of calls that does not stop it, the
  engine is still running and \<open>astart\<close> raises the DoubleSpawn \<^verbatim>\<open>ValueError\<close>, leaving
  the engine (so also its flag \<open>running\<close>) and the world unchanged.
\<close>

theorem second_start_rejected:
  assumes "running e" and "Do_astop \<notin> set body" and "run_body c body e w = (out, e1, w1)"
  shows "running e1 \<and> astart c e1 w1 = (Inl (ValueError double_spawn_msg), e1, w1)"
proof -
  from assms have "running e1" by (rule run_body_keeps_running)
  then show ?thesis by (simp add: astart_running)
qed

theorem second_start_rejected_witness:
  "running demo_running_engine
   \<and> astart demo_collab demo_running_engine demo_running_world
       = (Inl (ValueError double_spawn_msg), demo_running_engine, demo_running_world)"
proof -
  have r: "running demo_running_engine" by (simp add: demo_running_engine_def)
  have b: "Do_astop \<notin> set []" by simp
  have s: "run_body demo_collab [] demo_running_engine demo_running_world
             = (Completed, demo_running_engine, demo_running_world)" by simp
  from second_start_rejected [OF r b s] show ?thesis by simp
qed

text \<open>
  Claim C5. On an engine that is not running, whether it was never started or was
  stopped, \<open>astop\<close> raises the \<^verbatim>\<open>ValueError\<close> of \<^verbatim>\<open>_check_running\<close>; the engine and the
  world are unchanged, so no \<^verbatim>\<open>shutdown\<close> is called.
\<close>

theorem stop_when_not_running:
  "\<not> running e \<Longrightarrow> astop c e w = (Inl (ValueError not_started_msg), e, w)"
  by (simp add: astop_def check_running_def)

theorem stop_when_not_running_witness:
  "\<not> running demo_engine \<and> \<not> running demo_stopped_engine
   \<and> astop demo_collab demo_engine demo_world
        = (Inl (ValueError not_started_msg), demo_engine, demo_world)
   \<and> astop demo_collab demo_stopped_engine demo_stopped_world
        = (Inl (ValueError not_started_msg), demo_stopped_engine, demo_stopped_world)"
proof -
  have a: "\<not> running demo_engine" by (simp add: demo_engine_def)
  have b: "\<not> running demo_stopped_engine" by (simp add: demo_stopped_engine_def)
  from stop_when_not_running [OF a] stop_when_not_running [OF b] a b show ?thesis by simp
qed

subsection \<open>Starting the engine\<close>

text \<open>
  Claim C6. A call of \<open>astart\<close> that succeeds was made on an engine that was not
  running, and it adds exactly two calls to the trace: the construction of one new
  \<^verbatim>\<open>BatchHandler\<close> with the batch size, the cache path and the tokenization flag of the
  engine's configuration, the engine's model, and a batch delay of half the minimum
  inference time; and then \<^verbatim>\<open>spawn\<close> on that object. The engine keeps the object and
  is running.
\<close>

theorem start_constructs_runtime:
  assumes "astart c e w = (Inr (), e1, w1)"
  shows "calls w1 = calls w @
           [Call_init (next_handle w)
              \<lparr> max_batch_size = batch_size (engine_args e), bh_model = model e,
                batch_delay = min_inference_t e / 2,
                bh_vector_disk_cache_path = vector_disk_cache_path (engine_args e),
                verbose = (logger_level w \<le> 10),
                bh_lengths_via_tokenize = lengths_via_tokenize (engine_args e) \<rparr>,
            Call_spawn (next_handle w)]
         \<and> batch_handler e1 = Some (next_handle w) \<and> running e1 \<and> \<not> running e"
  using assms by (auto simp: astart_def Let_def split: if_splits option.splits)

theorem start_constructs_runtime_witness:
  "astart demo_collab demo_engine demo_world = (Inr (), demo_running_engine, demo_running_world)
   \<and> calls demo_running_world =
       [Call_init 0 \<lparr> max_batch_size = 32, bh_model = demo_model, batch_delay = 3 / 200,
                      bh_vector_disk_cache_path = ''/tmp/cache'', verbose = False,
                      bh_lengths_via_tokenize = True \<rparr>,
        Call_spawn 0]
   \<and> batch_handler demo_running_engine = Some 0"
proof -
  have s: "astart demo_collab demo_engine demo_world = (Inr (), demo_running_engine, demo_running_world)"
    by (rule demo_astart)
  from start_constructs_runtime [OF s] s show ?thesis
    by (simp add: demo_engine_def demo_world_def demo_args_def next_handle_def)
qed

subsection \<open>Construction\<close>

text \<open>
  Claim C9. \<open>from_args\<close> passes the failure of the resolver on, or returns an engine
  that is not running, has no \<^verbatim>\<open>BatchHandler\<close> and stores the given configuration; the
  world is unchanged, so nothing was started. The legacy constructor, called with the
  field values of the same configuration, gives the same result, and differs only in
  the deprecation warning that it logs.
\<close>

theorem from_args_created:
  "from_args c a w =
     (case select_model c a of
        Inl err \<Rightarrow> (Inl err, w)
      | Inr (m, tmin, tmax) \<Rightarrow>
          (Inr \<lparr> engine_args = a, running = False, model = m, min_inference_t = tmin,
                 max_inference_t = tmax, batch_handler = None \<rparr>, w))
   \<and> AsyncEmbeddingEngine_init c (Some (model_name_or_path a)) True (asdict_rest a) w =
       (fst (from_args c a w), w\<lparr>warnings := warnings w @ [deprecation_msg]\<rparr>)"
  by (simp add: from_args_def AsyncEmbeddingEngine_init_def EngineArgs_roundtrip Let_def
      split: sum.splits prod.splits)

theorem from_args_created_witness:
  "from_args demo_collab demo_args demo_world = (Inr demo_engine, demo_world)
   \<and> engine_args demo_engine = demo_args \<and> \<not> running demo_engine
   \<and> batch_handler demo_engine = None
   \<and> AsyncEmbeddingEngine_init demo_collab (Some ''model-a'') True (asdict_rest demo_args) demo_world
       = (Inr demo_engine, demo_world\<lparr>warnings := [deprecation_msg]\<rparr>)"
  using from_args_created [of demo_collab demo_args demo_world]
  by (simp add: demo_collab_def demo_engine_def demo_args_def demo_world_def)

subsection \<open>Capabilities\<close>

text \<open>
  Claim C7. For every engine object, whatever its flag \<open>running\<close>, the property
  \<open>capabilities\<close> returns the capability set of the engine's model and does not raise.
  For an engine built by \<open>from_args\<close>, after any block of calls (starts, stops and
  requests, failing or not), the model is still the one the resolver returned for the
  configuration, and \<open>capabilities\<close> returns what it returned at construction.
\<close>

theorem capabilities_any_state:
  "capabilities e = Inr (model_capabilities (model e))
   \<and> (from_args c a w = (Inr e0, w0) \<and> run_body c ops e0 w0 = (out, e1, w1) \<longrightarrow>
        (\<exists>tmin tmax. select_model c a = Inr (model e1, tmin, tmax))
        \<and> capabilities e1 = capabilities e0)"
proof -
  have "capabilities e = Inr (model_capabilities (model e))" by (simp add: capabilities_def)
  moreover
  { assume f: "from_args c a w = (Inr e0, w0)" and r: "run_body c ops e0 w0 = (out, e1, w1)"
    from r have m: "model e1 = model e0" by (rule run_body_model)
    from f have "select_model c a = Inr (model e0, min_inference_t e0, max_inference_t e0)"
      by (rule from_args_model)
    with m have "(\<exists>tmin tmax. select_model c a = Inr (model e1, tmin, tmax))
        \<and> capabilities e1 = capabilities e0" by (simp add: capabilities_def) }
  ultimately show ?thesis by blast
qed

lemma demo_start_stop_body:
  "run_body demo_collab [Do_astart, Do_astop] demo_engine demo_world
     = (Completed, demo_stopped_engine, demo_stopped_world)"
  by (simp add: demo_astart demo_astop)

theorem capabilities_any_state_witness:
  "from_args demo_collab demo_args demo_world = (Inr demo_engine, demo_world)
   \<and> run_body demo_collab [Do_astart, Do_astop] demo_engine demo_world
       = (Completed, demo_stopped_engine, demo_stopped_world)
   \<and> capabilities demo_engine = Inr {Cap_embed, Cap_classify}
   \<and> capabilities demo_stopped_engine = Inr {Cap_embed, Cap_classify}"
proof -
  note t = capabilities_any_state [of demo_engine demo_collab demo_args demo_world demo_engine
      demo_world "[Do_astart, Do_astop]" Completed demo_stopped_engine demo_stopped_world]
  from t have "capabilities demo_engine = Inr {Cap_embed, Cap_classify}"
    by (simp add: demo_engine_def demo_model_def)
  moreover from t demo_from_args demo_start_stop_body
  have "capabilities demo_stopped_engine = capabilities demo_engine" by blast
  ultimately show ?thesis using demo_from_args demo_start_stop_body by simp
qed

subsection \<open>Delegation of requests\<close>

lemma embed_delegates:
  "running e \<Longrightarrow> batch_handler e = Some h \<Longrightarrow>
     embed c e w ss = (bh_embed c (calls w) h ss, w\<lparr>calls := calls w @ [Call_embed h ss]\<rparr>)"
  by (simp add: embed_def check_running_def)

lemma rerank_delegates:
  "running e \<Longrightarrow> batch_handler e = Some h \<Longrightarrow>
     rerank c e w q docs raw =
       (bh_rerank c (calls w) h q docs raw,
        w\<lparr>calls := calls w @ [Call_rerank h q docs raw]\<rparr>)"
  by (simp add: rerank_def check_running_def)

lemma classify_ignores_raw_scores: "classify c e w ss True = classify c e w ss False"
  by (simp add: classify_def)

text \<open>
  Claim C1. \<open>embed\<close> and \<open>rerank\<close> pass all their arguments on (the two lemmas
  above). \<open>classify\<close> does not: on the running example engine, over a runtime whose
  class scores are softmax-normalized for \<^verbatim>\<open>raw_scores=False\<close> and raw for
  \<^verbatim>\<open>raw_scores=True\<close>, the call with \<^verbatim>\<open>raw_scores=False\<close> reaches the runtime without
  the flag and returns the raw scores, the same as the call with \<^verbatim>\<open>raw_scores=True\<close>.
\<close>

theorem classify_drops_raw_scores:
  "classify demo_collab demo_running_engine demo_running_world [''a''] False
     = (Inr ([[(''label'', 4)]], 1),
        demo_running_world\<lparr>calls := calls demo_running_world @ [Call_classify 0 [''a''] None]\<rparr>)
   \<and> classify demo_collab demo_running_engine demo_running_world [''a''] True
     = classify demo_collab demo_running_engine demo_running_world [''a''] False
   \<and> bh_classify demo_collab (calls demo_running_world) 0 [''a''] (Some False)
     = Inr ([[(''label'', 1 / 2)]], 1)
   \<and> bh_classify demo_collab (calls demo_running_world) 0 [''a''] (Some True)
     = Inr ([[(''label'', 4)]], 1)"
  by (simp add: classify_def check_running_def demo_running_engine_def demo_collab_def)

subsection \<open>Start after stop\<close>

text \<open>
  Claim C2, as stated, fails: the example engine is started, stopped, and started
  again on the same object; the second start succeeds and constructs a second
  \<^verbatim>\<open>BatchHandler\<close>.
\<close>

theorem stopped_engine_restarts:
  "astart demo_collab demo_engine demo_world = (Inr (), demo_running_engine, demo_running_world)
   \<and> astop demo_collab demo_running_engine demo_running_world
       = (Inr (), demo_stopped_engine, demo_stopped_world)
   \<and> fst (astart demo_collab demo_stopped_engine demo_stopped_world) = Inr ()
   \<and> running (fst (snd (astart demo_collab demo_stopped_engine demo_stopped_world)))
   \<and> batch_handler (fst (snd (astart demo_collab demo_stopped_engine demo_stopped_world)))
       = Some 1"
  by (simp add: demo_astart demo_astop)
    (simp add: astart_def demo_stopped_engine_def demo_stopped_world_def demo_collab_def
      next_handle_def)

text \<open>
  Claim C2, amended. After a successful \<open>astop\<close> the engine is not running, and the
  next \<open>astart\<close> on the same object is not rejected: it sets the flag \<open>running\<close> and
  calls the constructor of a new \<^verbatim>\<open>BatchHandler\<close>; it succeeds whenever that
  construction and the spawn succeed.
\<close>

theorem restart_after_stop:
  assumes "astop c e w = (Inr (), e1, w1)"
  shows "\<not> running e1
     \<and> running (fst (snd (astart c e1 w1)))
     \<and> take (Suc (length (calls w1))) (calls (snd (snd (astart c e1 w1))))
         = calls w1 @ [Call_init (next_handle w1) (start_args e1 w1)]
     \<and> (bh_init c (calls w1) (next_handle w1) (start_args e1 w1) = None
        \<and> bh_spawn c (calls w1 @ [Call_init (next_handle w1) (start_args e1 w1)])
             (next_handle w1) = None
        \<longrightarrow> astart c e1 w1 =
              (Inr (), e1\<lparr>running := True, batch_handler := Some (next_handle w1)\<rparr>,
               w1\<lparr>calls := calls w1 @ [Call_init (next_handle w1) (start_args e1 w1),
                                        Call_spawn (next_handle w1)]\<rparr>))"
proof -
  from assms have nr: "\<not> running e1" by (auto dest: astop_success)
  show ?thesis
    using nr by (simp add: astart_not_running split: option.splits)
qed

theorem restart_after_stop_witness:
  "astop demo_collab demo_running_engine demo_running_world
       = (Inr (), demo_stopped_engine, demo_stopped_world)
   \<and> \<not> running demo_stopped_engine
   \<and> astart demo_collab demo_stopped_engine demo_stopped_world =
       (Inr (), demo_stopped_engine\<lparr>running := True, batch_handler := Some 1\<rparr>,
        demo_stopped_world\<lparr>calls := calls demo_stopped_world @
           [Call_init 1 demo_handler_args, Call_spawn 1]\<rparr>)"
proof -
  have h: "next_handle demo_stopped_world = 1"
    by (simp add: next_handle_def demo_stopped_world_def)
  have a: "start_args demo_stopped_engine demo_stopped_world = demo_handler_args"
    by (simp add: start_args_def demo_stopped_engine_def demo_stopped_world_def
        demo_engine_def demo_world_def demo_args_def demo_handler_args_def)
  have i: "bh_init demo_collab tr n args = None" for tr n args
    by (simp add: demo_collab_def)
  have s: "bh_spawn demo_collab tr n = None" for tr n
    by (simp add: demo_collab_def)
  from restart_after_stop [OF demo_astop] demo_astop h a i s show ?thesis by simp
qed

subsection \<open>A start that fails\<close>

text \<open>
  Claim C10, as stated, fails where the construction raises: on the example engine,
  never started before, \<open>astart\<close> over a runtime whose constructor raises leaves the
  engine running without a \<^verbatim>\<open>BatchHandler\<close>; \<open>astop\<close> then passes the check, clears the
  flag and raises \<^verbatim>\<open>AttributeError\<close>, and no \<^verbatim>\<open>shutdown\<close> is called.
\<close>

theorem failed_construction_then_stop:
  "astart init_fails_collab demo_engine demo_world
     = (Inl (Raised ''OSError''), demo_half_started_engine, demo_half_started_world)
   \<and> running demo_half_started_engine
   \<and> astop init_fails_collab demo_half_started_engine demo_half_started_world
     = (Inl (AttributeError ''_batch_handler''), demo_engine, demo_half_started_world)
   \<and> filter is_shutdown (calls demo_half_started_world) = []"
  by (simp add: astart_def astop_def check_running_def init_fails_collab_def demo_collab_def
      demo_engine_def demo_world_def demo_half_started_engine_def demo_half_started_world_def
      demo_handler_args_def demo_args_def next_handle_def)

text \<open>
  Claim C10, amended. \<open>astart\<close> on an engine that is not running sets the flag before it
  constructs and spawns the runtime, so when either raises the engine is left running:
  the next \<open>astart\<close> raises the DoubleSpawn \<^verbatim>\<open>ValueError\<close>, and the next \<open>astop\<close> passes
  \<^verbatim>\<open>_check_running\<close> and clears the flag. If the spawn raised, the new runtime was stored
  and \<open>astop\<close> calls its \<^verbatim>\<open>shutdown\<close>. If the construction raised, nothing was stored:
  on an engine that never had a runtime, \<open>astop\<close> raises \<^verbatim>\<open>AttributeError\<close> and calls
  nothing.
\<close>

theorem start_not_atomic:
  assumes "\<not> running e" and "astart c e w = (Inl err, e1, w1)"
  shows "running e1
     \<and> astart c e1 w1 = (Inl (ValueError double_spawn_msg), e1, w1)
     \<and> check_running e1 = Inr ()
     \<and> \<not> running (fst (snd (astop c e1 w1)))
     \<and> (bh_init c (calls w) (next_handle w) (start_args e w) = None \<longrightarrow>
          batch_handler e1 = Some (next_handle w)
          \<and> calls (snd (snd (astop c e1 w1))) = calls w1 @ [Call_shutdown (next_handle w)])
     \<and> (bh_init c (calls w) (next_handle w) (start_args e w) \<noteq> None \<longrightarrow>
          batch_handler e1 = batch_handler e
          \<and> (batch_handler e = None \<longrightarrow>
               astop c e1 w1 = (Inl (AttributeError ''_batch_handler''),
                                e1\<lparr>running := False\<rparr>, w1)))"
proof -
  from assms(2) have r: "running e1"
    using astart_result_running [of c e w] by simp
  have a: "astart c e1 w1 = (Inl (ValueError double_spawn_msg), e1, w1)"
    using r by (rule astart_running)
  have k: "check_running e1 = Inr ()" using r by (simp add: check_running_def)
  have s: "\<not> running (fst (snd (astop c e1 w1)))"
    using r by (simp add: astop_def check_running_def Let_def split: option.splits)
  have i: "bh_init c (calls w) (next_handle w) (start_args e w) = None \<longrightarrow>
          batch_handler e1 = Some (next_handle w)
          \<and> calls (snd (snd (astop c e1 w1))) = calls w1 @ [Call_shutdown (next_handle w)]"
    using assms
    by (auto simp: astart_not_running astop_def check_running_def Let_def split: option.splits)
  have j: "bh_init c (calls w) (next_handle w) (start_args e w) \<noteq> None \<longrightarrow>
          batch_handler e1 = batch_handler e
          \<and> (batch_handler e = None \<longrightarrow>
               astop c e1 w1 = (Inl (AttributeError ''_batch_handler''),
                                e1\<lparr>running := False\<rparr>, w1))"
    using assms
    by (auto simp: astart_not_running astop_def check_running_def Let_def split: option.splits)
  from r a k s i j show ?thesis by blast
qed

theorem start_not_atomic_witness:
  "\<not> running demo_engine
   \<and> astart spawn_fails_collab demo_engine demo_world
       = (Inl (Raised ''RuntimeError''), demo_running_engine, demo_running_world)
   \<and> running demo_running_engine
   \<and> astart spawn_fails_collab demo_running_engine demo_running_world
       = (Inl (ValueError double_spawn_msg), demo_running_engine, demo_running_world)
   \<and> calls (snd (snd (astop spawn_fails_collab demo_running_engine demo_running_world)))
       = calls demo_running_world @ [Call_shutdown 0]"
proof -
  have n: "\<not> running demo_engine" by (simp add: demo_engine_def)
  have h: "next_handle demo_world = 0" by (simp add: next_handle_def demo_world_def)
  have i: "bh_init spawn_fails_collab tr k args = None" for tr k args
    by (simp add: spawn_fails_collab_def demo_collab_def)
  from start_not_atomic [OF n demo_spawn_fails] n demo_spawn_fails h i show ?thesis by simp
qed

subsection \<open>The scoped lifecycle\<close>

text \<open>When \<open>astart\<close> raises, the scope is not entered: the body is not run.\<close>

lemma scope_not_entered:
  "astart c e w = (Inl err, e1, w1) \<Longrightarrow> async_with c body e w = (Failed err, e1, w1)"
  by (simp add: async_with_def aenter_def)

lemma embed_fails_astart:
  "astart embed_fails_collab demo_engine demo_world
     = (Inr (), demo_running_engine, demo_running_world)"
  by (simp add: astart_def embed_fails_collab_def demo_collab_def demo_engine_def demo_world_def
      demo_running_engine_def demo_running_world_def demo_handler_args_def demo_args_def
      next_handle_def)

lemma embed_fails_block:
  "run_body embed_fails_collab demo_block demo_running_engine demo_running_world
     = (Failed (Raised ''ModelNotDeployedError''), demo_running_engine,
        demo_running_world\<lparr>calls := calls demo_running_world @
           [Call_is_overloaded 0, Call_embed 0 [''a'']]\<rparr>)"
  by (simp add: demo_block_def is_overloaded_def embed_def check_running_def
      embed_fails_collab_def demo_collab_def demo_running_engine_def)

text \<open>
  Claim C8. Entering the scope is \<open>astart\<close>. When the scope is entered, then for every
  body and every way it ends (completed, returned early, or failed), the scope ends by
  applying \<open>astop\<close> once to the state the body left, and an exception of \<open>astop\<close>
  replaces the body's outcome. If the body is a block of calls without lifecycle calls,
  whether or not one of them fails, the engine is not running afterwards and the trace
  gained exactly one \<^verbatim>\<open>shutdown\<close>, its last call, on the runtime the start created.
\<close>

theorem scope_stops_once:
  assumes "astart c e w = (Inr (), e1, w1)" and "body e1 w1 = (out, e2, w2)"
  shows "aenter c e w = astart c e w
     \<and> async_with c body e w =
         (case astop c e2 w2 of
            (Inl err, e3, w3) \<Rightarrow> (Failed err, e3, w3)
          | (Inr u, e3, w3) \<Rightarrow> (out, e3, w3))
     \<and> (body = run_body c ops \<and> (\<forall>x\<in>set ops. \<not> is_lifecycle x) \<longrightarrow>
          \<not> running (fst (snd (async_with c body e w)))
          \<and> calls (snd (snd (async_with c body e w)))
               = calls w2 @ [Call_shutdown (next_handle w)]
          \<and> length (filter is_shutdown (calls (snd (snd (async_with c body e w)))))
               = Suc (length (filter is_shutdown (calls w))))"
proof -
  have en: "aenter c e w = astart c e w" by (simp add: aenter_def)
  have eq: "async_with c body e w =
         (case astop c e2 w2 of
            (Inl err, e3, w3) \<Rightarrow> (Failed err, e3, w3)
          | (Inr u, e3, w3) \<Rightarrow> (out, e3, w3))"
    using assms
    by (simp add: async_with_def aenter_def aexit_def split: prod.splits sum.splits)
  { assume b: "body = run_body c ops \<and> (\<forall>x\<in>set ops. \<not> is_lifecycle x)"
    from astart_success [OF assms(1)]
    have st: "calls w1 = calls w @
           [Call_init (next_handle w) (start_args e w), Call_spawn (next_handle w)]"
      and bh: "batch_handler e1 = Some (next_handle w)" and r1: "running e1"
      by simp_all
    from assms(2) b have rb: "run_body c ops e1 w1 = (out, e2, w2)" by simp
    from b have nl: "\<forall>x\<in>set ops. \<not> is_lifecycle x" by simp
    from run_body_requests [OF nl rb]
    obtain ys where e2: "e2 = e1"
      and ys: "calls w2 = calls w1 @ ys" "filter is_shutdown ys = []"
      by blast
    have stop: "snd (astop c e2 w2) =
        (e1\<lparr>running := False\<rparr>, w2\<lparr>calls := calls w2 @ [Call_shutdown (next_handle w)]\<rparr>)"
      using e2 bh r1 by (simp add: astop_def check_running_def Let_def split: option.splits)
    have res: "snd (async_with c body e w) = snd (astop c e2 w2)"
      using eq by (simp split: prod.splits sum.splits)
    have "\<not> running (fst (snd (async_with c body e w)))
          \<and> calls (snd (snd (async_with c body e w)))
               = calls w2 @ [Call_shutdown (next_handle w)]
          \<and> length (filter is_shutdown (calls (snd (snd (async_with c body e w)))))
               = Suc (length (filter is_shutdown (calls w)))"
      using res stop st ys by simp }
  with en eq show ?thesis by blast
qed

theorem scope_stops_once_witness:
  "astart embed_fails_collab demo_engine demo_world
     = (Inr (), demo_running_engine, demo_running_world)
   \<and> run_body embed_fails_collab demo_block demo_running_engine demo_running_world
     = (Failed (Raised ''ModelNotDeployedError''), demo_running_engine,
        demo_running_world\<lparr>calls := calls demo_running_world @
           [Call_is_overloaded 0, Call_embed 0 [''a'']]\<rparr>)
   \<and> list_all (\<lambda>x. \<not> is_lifecycle x) demo_block
   \<and> async_with embed_fails_collab (run_body embed_fails_collab demo_block)
        demo_engine demo_world
     = (Failed (Raised ''ModelNotDeployedError''), demo_stopped_engine,
        demo_world\<lparr>calls := [Call_init 0 demo_handler_args, Call_spawn 0,
           Call_is_overloaded 0, Call_embed 0 [''a''], Call_shutdown 0]\<rparr>)
   \<and> length (filter is_shutdown (calls (snd (snd
        (async_with embed_fails_collab (run_body embed_fails_collab demo_block)
           demo_engine demo_world))))) = 1"
proof -
  have nl: "\<forall>x\<in>set demo_block. \<not> is_lifecycle x" by (simp add: demo_block_def)
  have la: "list_all (\<lambda>x. \<not> is_lifecycle x) demo_block" by (simp add: demo_block_def)
  have w0: "filter is_shutdown (calls demo_world) = []" by (simp add: demo_world_def)
  have stop: "astop embed_fails_collab demo_running_engine
        (demo_running_world\<lparr>calls := calls demo_running_world @
           [Call_is_overloaded 0, Call_embed 0 [''a'']]\<rparr>)
      = (Inr (), demo_stopped_engine,
         demo_world\<lparr>calls := [Call_init 0 demo_handler_args, Call_spawn 0,
           Call_is_overloaded 0, Call_embed 0 [''a''], Call_shutdown 0]\<rparr>)"
    by (simp add: astop_def check_running_def embed_fails_collab_def demo_collab_def
        demo_running_engine_def demo_stopped_engine_def demo_running_world_def)
  from scope_stops_once [where body = "run_body embed_fails_collab demo_block"
      and ops = demo_block, OF embed_fails_astart embed_fails_block]
    embed_fails_astart embed_fails_block nl la w0 stop
  show ?thesis by simp
qed

end
